theory Spec2Isabelle
  imports Complex_Main
begin

text \<open>
  A model of \<^verbatim>\<open>src/components/AudioManager.tsx\<close>: the state of the
  \<^verbatim>\<open>AudioManager\<close> component, its four source adapters (URL, file, recording,
  test corpus), the batch evaluation \<^verbatim>\<open>transcribeAllFiles\<close> and the report of
  \<^verbatim>\<open>CopyButton\<close>. The transcriber (\<^verbatim>\<open>useTranscriber\<close>), the network and the
  audio decoder are the environment: their answers are parameters of the functions or
  events of the transition system.
\<close>

section \<open>JavaScript values used by the audio manager\<close>

text \<open>
  Strings are sequences of code units; the model covers the code units 0..255
  (Latin-1), on which \<^verbatim>\<open>trim\<close> and \<^verbatim>\<open>toLowerCase\<close> are closed.
  The white space of ECMAScript in that range is TAB, LF, VT, FF, CR, SP and NBSP.
\<close>

definition LF :: char where
  "LF = CHR 0x0A"

definition isWhiteSpace :: "char \<Rightarrow> bool" where
  "isWhiteSpace c \<longleftrightarrow>
     c = CHR 0x09 \<or> c = CHR 0x0A \<or> c = CHR 0x0B \<or> c = CHR 0x0C \<or> c = CHR 0x0D
     \<or> c = CHR 0x20 \<or> c = CHR 0xA0"

definition trim :: "string \<Rightarrow> string" where
  "trim s = rev (dropWhile isWhiteSpace (rev (dropWhile isWhiteSpace s)))"

text \<open>
  \<^verbatim>\<open>toLowerCase\<close>: A..Z and the Latin-1 capitals 0xC0..0xDE (0xD7, the
  multiplication sign, apart) move up by 0x20; every other code unit stays.
\<close>

definition lowerChar :: "char \<Rightarrow> char" where
  "lowerChar c =
     (let n = (of_char c :: nat)
      in if (65 \<le> n \<and> n \<le> 90) \<or> (192 \<le> n \<and> n \<le> 222 \<and> n \<noteq> 215)
         then char_of (n + 32) else c)"

definition toLowerCase :: "string \<Rightarrow> string" where
  "toLowerCase s = map lowerChar s"

text \<open>\<^verbatim>\<open>s.split(c)\<close> for a one-character separator: empty fields are kept.\<close>

fun split :: "char \<Rightarrow> string \<Rightarrow> string list" where
  "split c [] = [[]]"
| "split c (x # xs) =
     (if x = c then [] # split c xs
      else (case split c xs of
              [] \<Rightarrow> [[x]]
            | field # fields \<Rightarrow> (x # field) # fields))"

text \<open>\<^verbatim>\<open>parts.join(sep)\<close>.\<close>

fun join :: "string \<Rightarrow> string list \<Rightarrow> string" where
  "join sep [] = []"
| "join sep [x] = x"
| "join sep (x # y # ys) = x @ sep @ join sep (y # ys)"

text \<open>\<^verbatim>\<open>s.indexOf(c)\<close>: the first position of \<open>c\<close>, \<open>None\<close> for -1.\<close>

fun indexOf :: "char \<Rightarrow> string \<Rightarrow> nat option" where
  "indexOf c [] = None"
| "indexOf c (x # xs) =
     (if x = c then Some 0
      else (case indexOf c xs of None \<Rightarrow> None | Some i \<Rightarrow> Some (Suc i)))"

text \<open>
  \<^verbatim>\<open>s.substring(a, b)\<close> and \<^verbatim>\<open>s.substring(a)\<close> for \<open>a \<le> b\<close>; positions
  beyond the end are clamped to the length, as \<open>take\<close> and \<open>drop\<close> do.
\<close>

definition substring :: "string \<Rightarrow> nat \<Rightarrow> nat \<Rightarrow> string" where
  "substring s a b = take (b - a) (drop a s)"

definition substringFrom :: "string \<Rightarrow> nat \<Rightarrow> string" where
  "substringFrom s a = drop a s"

text \<open>
  Numbers: a finite double is represented by the rational it denotes; the three
  special values are kept apart, since \<^verbatim>\<open>||\<close> and the progress bar treat them
  differently.
\<close>

datatype jsnum = Num rat | NaN | PosInfinity | NegInfinity

text \<open>\<^verbatim>\<open>a / b\<close> for two non-negative integral numbers (byte counts).\<close>

definition js_div :: "nat \<Rightarrow> nat \<Rightarrow> jsnum" where
  "js_div a b =
     (if b = 0 then (if a = 0 then NaN else PosInfinity)
      else Num (of_nat a / of_nat b))"

text \<open>\<^verbatim>\<open>x || 0\<close> on \<^verbatim>\<open>number | undefined\<close>: undefined, NaN and 0 are falsy.\<close>

definition or_zero :: "jsnum option \<Rightarrow> jsnum" where
  "or_zero v =
     (case v of
        None \<Rightarrow> Num 0
      | Some x \<Rightarrow> if x = NaN \<or> x = Num 0 then Num 0 else x)"

text \<open>\<^verbatim>\<open>s || d\<close> on \<^verbatim>\<open>string | null | undefined\<close>: absent and empty are falsy.\<close>

definition or_default :: "string option \<Rightarrow> string \<Rightarrow> string" where
  "or_default v d = (case v of None \<Rightarrow> d | Some s \<Rightarrow> if s = [] then d else s)"

section \<open>Data model\<close>

datatype AudioSource = URL | FILE | RECORDING | TEST

text \<open>
  The \<^verbatim>\<open>url\<close> of an audio is either a blob URL made by
  \<^verbatim>\<open>URL.createObjectURL\<close>, identified by the number of the call that made it,
  or the path of a static resource (test corpus).
\<close>

datatype PlaybackUrl = BlobUrl nat | ResourceUrl string

text \<open>The decoded \<^verbatim>\<open>AudioBuffer\<close> is opaque: a type parameter.\<close>

record 'b AudioData =
  buffer :: 'b
  url :: PlaybackUrl
  source :: AudioSource
  mimeType :: string

record 'b TestAudio = "'b AudioData" +
  filename :: string
  transcription :: string

text \<open>
  What \<^verbatim>\<open>transcriber.start\<close> resolves to; its \<^verbatim>\<open>text\<close> field is
  \<open>text_d\<close> here. The latency is a number whose representation is a parameter.
\<close>

record 'n TranscribedData =
  text_d :: string
  latency :: 'n

record 'n TranscriptionResult =
  filename :: string
  groundTruth :: string
  transcription :: string
  latency :: 'n

text \<open>
  An awaited call of \<^verbatim>\<open>props.transcriber.start\<close>: it resolves with data, resolves
  with \<^verbatim>\<open>undefined\<close>, or rejects.
\<close>

datatype 'n outcome = Resolved "'n TranscribedData option" | Rejected

text \<open>
  The axios request of one run of the URL effect: in flight; cancelled through its
  abort controller; failed by itself; delivered, with \<^verbatim>\<open>setAudioFromDownload\<close>
  waiting for \<^verbatim>\<open>decodeAudioData\<close> (blob handle and MIME type kept in the closure);
  settled.
\<close>

datatype request = Pending | Cancelled | Failed | Decoding nat string | Settled

text \<open>
  A \<^verbatim>\<open>FileReader\<close> started by the file tile or by \<^verbatim>\<open>setAudioFromRecording\<close>,
  with the blob handle and the MIME type its handlers close over.
\<close>

datatype reader = FileRead nat string | RecordingRead nat string | Closed

text \<open>
  Where an installed audio came from: the request or the reader whose continuation
  called \<^verbatim>\<open>setAudioData\<close>.
\<close>

datatype origin = Request nat | Reader nat

text \<open>
  The calls the component makes, in the order it makes them; \<open>StartSettled i\<close> is the
  return of the awaited call number \<open>i\<close> of \<^verbatim>\<open>transcriber.start\<close> in a batch.
\<close>

datatype action =
    InputChange
  | SetProgress "jsnum option"
  | SetAudioData "origin option"
  | SetAudioDownloadUrl "string option"
  | SetAudioDataList nat
  | SetTestProgress jsnum
  | SetTranscriptionResults
  | StartSettled nat
  | CreateObjectURL nat
  | Abort nat
  | ConsoleLog

text \<open>
  The state of the \<^verbatim>\<open>AudioManager\<close> component: its six \<^verbatim>\<open>useState\<close> cells,
  then the asynchronous operations it has started, the abort controller owned by the
  current run of the URL effect, the blob handles created and revoked, and the log of calls.
\<close>

record ('b, 'n) Manager =
  progress :: "jsnum option"
  audioData :: "'b AudioData option"
  audioDownloadUrl :: "string option"
  audioDataList :: "'b TestAudio list"
  transcriptionResults :: "'n TranscriptionResult option list"
  testProgress :: jsnum
  requests :: "request list"
  controller :: "nat option"
  readers :: "reader list"
  blobs :: nat
  revoked :: "nat list"
  trace :: "action list"

definition init :: "('b, 'n) Manager" where
  "init = \<lparr>progress = None, audioData = None, audioDownloadUrl = None,
            audioDataList = [], transcriptionResults = [], testProgress = Num 0,
            requests = [], controller = None, readers = [], blobs = 0,
            revoked = [], trace = []\<rparr>"

section \<open>Setters and external calls\<close>

definition record_call :: "action \<Rightarrow> ('b, 'n) Manager \<Rightarrow> ('b, 'n) Manager" where
  "record_call a s = s\<lparr>trace := trace s @ [a]\<rparr>"

definition onInputChange :: "('b, 'n) Manager \<Rightarrow> ('b, 'n) Manager" where
  "onInputChange s = record_call InputChange s"

definition setProgress :: "jsnum option \<Rightarrow> ('b, 'n) Manager \<Rightarrow> ('b, 'n) Manager" where
  "setProgress v s = record_call (SetProgress v) (s\<lparr>progress := v\<rparr>)"

definition setAudioData ::
  "origin option \<Rightarrow> 'b AudioData option \<Rightarrow> ('b, 'n) Manager \<Rightarrow> ('b, 'n) Manager" where
  "setAudioData org v s = record_call (SetAudioData org) (s\<lparr>audioData := v\<rparr>)"

definition setAudioDownloadUrl :: "string option \<Rightarrow> ('b, 'n) Manager \<Rightarrow> ('b, 'n) Manager" where
  "setAudioDownloadUrl v s = record_call (SetAudioDownloadUrl v) (s\<lparr>audioDownloadUrl := v\<rparr>)"

definition setAudioDataList ::
  "'b TestAudio list \<Rightarrow> ('b, 'n) Manager \<Rightarrow> ('b, 'n) Manager" where
  "setAudioDataList v s = record_call (SetAudioDataList (length v)) (s\<lparr>audioDataList := v\<rparr>)"

definition setTestProgress :: "jsnum \<Rightarrow> ('b, 'n) Manager \<Rightarrow> ('b, 'n) Manager" where
  "setTestProgress v s = record_call (SetTestProgress v) (s\<lparr>testProgress := v\<rparr>)"

definition setTranscriptionResults ::
  "'n TranscriptionResult option list \<Rightarrow> ('b, 'n) Manager \<Rightarrow> ('b, 'n) Manager" where
  "setTranscriptionResults v s =
     record_call SetTranscriptionResults (s\<lparr>transcriptionResults := v\<rparr>)"

text \<open>\<^verbatim>\<open>URL.createObjectURL\<close>: the handle is the number of handles made before.\<close>

definition createObjectURL :: "('b, 'n) Manager \<Rightarrow> nat \<times> ('b, 'n) Manager" where
  "createObjectURL s = (blobs s, record_call (CreateObjectURL (blobs s)) (s\<lparr>blobs := Suc (blobs s)\<rparr>))"

section \<open>The URL adapter\<close>

text \<open>Truthiness of \<^verbatim>\<open>string | undefined\<close>.\<close>

definition truthy :: "string option \<Rightarrow> bool" where
  "truthy v = (case v of None \<Rightarrow> False | Some u \<Rightarrow> u \<noteq> [])"

definition resetAudio :: "('b, 'n) Manager \<Rightarrow> ('b, 'n) Manager" where
  "resetAudio s = setAudioDownloadUrl None (setAudioData None None s)"

text \<open>
  \<^verbatim>\<open>downloadAudioFromUrl\<close>, lines 240 to 243: the declared content type, where
  \<open>None\<close> is a missing header.
\<close>

definition download_mimeType :: "string option \<Rightarrow> string" where
  "download_mimeType header =
     (case header of
        None \<Rightarrow> ''audio/wav''
      | Some mime \<Rightarrow>
          if mime = [] \<or> mime = ''audio/wave'' then ''audio/wav'' else mime)"

text \<open>
  \<^verbatim>\<open>downloadAudioFromUrl\<close> up to its \<^verbatim>\<open>await axios.get\<close>: the new request is
  the last of \<open>requests\<close>.
\<close>

definition downloadAudioFromUrl :: "('b, 'n) Manager \<Rightarrow> ('b, 'n) Manager" where
  "downloadAudioFromUrl s =
     (if truthy (audioDownloadUrl s)
      then let s1 = setAudioData None None s;
               s2 = setProgress (Some (Num 0)) s1
           in s2\<lparr>requests := requests s2 @ [Pending]\<rparr>
      else s)"

definition in_flight :: "nat \<Rightarrow> ('b, 'n) Manager \<Rightarrow> bool" where
  "in_flight r s \<longleftrightarrow> r < length (requests s) \<and> requests s ! r = Pending"

text \<open>\<^verbatim>\<open>onDownloadProgress(progressEvent)\<close> of request \<open>r\<close>.\<close>

definition onDownloadProgress ::
  "nat \<Rightarrow> jsnum option \<Rightarrow> ('b, 'n) Manager \<Rightarrow> ('b, 'n) Manager" where
  "onDownloadProgress r p s =
     (if in_flight r s then setProgress (Some (or_zero p)) s else s)"

text \<open>
  \<^verbatim>\<open>setAudioFromDownload\<close> up to its \<^verbatim>\<open>await audioCTX.decodeAudioData\<close>: the blob
  URL is made before the decoding starts.
\<close>

definition setAudioFromDownload ::
  "nat \<Rightarrow> string \<Rightarrow> ('b, 'n) Manager \<Rightarrow> ('b, 'n) Manager" where
  "setAudioFromDownload r mime s =
     (let (blobUrl, s1) = createObjectURL s
      in s1\<lparr>requests := (requests s1)[r := Decoding blobUrl mime]\<rparr>)"

text \<open>
  \<^verbatim>\<open>downloadAudioFromUrl\<close> after \<^verbatim>\<open>axios.get\<close> resolved for request \<open>r\<close>:
  \<^verbatim>\<open>setAudioFromDownload\<close> is called without \<^verbatim>\<open>await\<close>, then the
  \<^verbatim>\<open>finally\<close> block runs. A request that is not in flight delivers nothing.
\<close>

definition downloadAudioFromUrl_resolved ::
  "nat \<Rightarrow> string option \<Rightarrow> ('b, 'n) Manager \<Rightarrow> ('b, 'n) Manager" where
  "downloadAudioFromUrl_resolved r header s =
     (if in_flight r s
      then let mime = download_mimeType header;
               s1 = setAudioFromDownload r mime s
           in setProgress None s1
      else s)"

text \<open>The \<^verbatim>\<open>catch\<close> and \<^verbatim>\<open>finally\<close> blocks of \<^verbatim>\<open>downloadAudioFromUrl\<close>.\<close>

definition downloadAudioFromUrl_caught :: "('b, 'n) Manager \<Rightarrow> ('b, 'n) Manager" where
  "downloadAudioFromUrl_caught s = setProgress None (record_call ConsoleLog s)"

definition downloadAudioFromUrl_rejected ::
  "nat \<Rightarrow> ('b, 'n) Manager \<Rightarrow> ('b, 'n) Manager" where
  "downloadAudioFromUrl_rejected r s =
     (if in_flight r s
      then downloadAudioFromUrl_caught (s\<lparr>requests := (requests s)[r := Failed]\<rparr>)
      else s)"

text \<open>
  \<^verbatim>\<open>setAudioFromDownload\<close> after \<^verbatim>\<open>decodeAudioData\<close> settled for request \<open>r\<close>;
  \<open>None\<close> is a rejected decoding, which nothing catches.
\<close>

definition setAudioFromDownload_decoded ::
  "nat \<Rightarrow> 'b option \<Rightarrow> ('b, 'n) Manager \<Rightarrow> ('b, 'n) Manager" where
  "setAudioFromDownload_decoded r res s =
     (if r < length (requests s)
      then (case requests s ! r of
              Decoding blobUrl mime \<Rightarrow>
                (let s1 = s\<lparr>requests := (requests s)[r := Settled]\<rparr>
                 in case res of
                      None \<Rightarrow> s1
                    | Some decoded \<Rightarrow>
                        setAudioData (Some (Request r))
                          (Some \<lparr>buffer = decoded, url = BlobUrl blobUrl,
                                 source = URL, mimeType = mime\<rparr>) s1)
            | _ \<Rightarrow> s)
      else s)"

text \<open>
  \<^verbatim>\<open>requestAbortController.abort()\<close>: axios rejects a request that is in flight;
  on a request that has been delivered or has failed the call does nothing.
\<close>

definition abort :: "nat \<Rightarrow> ('b, 'n) Manager \<Rightarrow> ('b, 'n) Manager" where
  "abort r s =
     (let s1 = record_call (Abort r) s
      in if in_flight r s1 then s1\<lparr>requests := (requests s1)[r := Cancelled]\<rparr> else s1)"

text \<open>
  The effect \<^verbatim>\<open>useEffect(..., [audioDownloadUrl])\<close>, lines 312 to 320, run by React
  after a handler when the cell differs from its value \<open>prev\<close> at the previous
  commit. The cleanup of the previous run aborts its controller; the new run makes a
  controller and calls \<^verbatim>\<open>downloadAudioFromUrl\<close> when the URL is truthy; the rejection
  of an aborted request is handled after this synchronous part.
\<close>

definition urlEffect :: "string option \<Rightarrow> ('b, 'n) Manager \<Rightarrow> ('b, 'n) Manager" where
  "urlEffect prev s =
     (if audioDownloadUrl s = prev then s
      else let aborted = (case controller s of None \<Rightarrow> False | Some r \<Rightarrow> in_flight r s);
               s1 = (case controller s of
                       None \<Rightarrow> s
                     | Some r \<Rightarrow> abort r (s\<lparr>controller := None\<rparr>));
               s2 = (if truthy (audioDownloadUrl s1)
                     then downloadAudioFromUrl
                            (s1\<lparr>controller := Some (length (requests s1))\<rparr>)
                     else s1)
           in if aborted then downloadAudioFromUrl_caught s2 else s2)"

definition onUrlUpdate :: "string \<Rightarrow> ('b, 'n) Manager \<Rightarrow> ('b, 'n) Manager" where
  "onUrlUpdate e s = setAudioDownloadUrl (Some e) (onInputChange s)"

section \<open>The file and recording adapters\<close>

text \<open>\<^verbatim>\<open>elem.oninput\<close> of the file tile, for a file of the given type.\<close>

definition FileTile_oninput :: "string \<Rightarrow> ('b, 'n) Manager \<Rightarrow> ('b, 'n) Manager" where
  "FileTile_oninput mime s =
     (let (urlObj, s1) = createObjectURL s
      in s1\<lparr>readers := readers s1 @ [FileRead urlObj mime]\<rparr>)"

definition onFileUpdate ::
  "origin \<Rightarrow> 'b \<Rightarrow> nat \<Rightarrow> string \<Rightarrow> ('b, 'n) Manager \<Rightarrow> ('b, 'n) Manager" where
  "onFileUpdate org decoded blobUrl mime s =
     setAudioData (Some org)
       (Some \<lparr>buffer = decoded, url = BlobUrl blobUrl, source = FILE, mimeType = mime\<rparr>)
       (onInputChange s)"

text \<open>
  The \<^verbatim>\<open>load\<close> listener of reader \<open>k\<close> with the outcome of the decoding; \<open>None\<close>
  is an empty result or a rejected decoding.
\<close>

definition FileTile_load :: "nat \<Rightarrow> 'b option \<Rightarrow> ('b, 'n) Manager \<Rightarrow> ('b, 'n) Manager" where
  "FileTile_load k res s =
     (if k < length (readers s)
      then (case readers s ! k of
              FileRead urlObj mime \<Rightarrow>
                (let s1 = s\<lparr>readers := (readers s)[k := Closed]\<rparr>
                 in case res of
                      None \<Rightarrow> s1
                    | Some decoded \<Rightarrow> onFileUpdate (Reader k) decoded urlObj mime s1)
            | _ \<Rightarrow> s)
      else s)"

definition setAudioFromRecording :: "string \<Rightarrow> ('b, 'n) Manager \<Rightarrow> ('b, 'n) Manager" where
  "setAudioFromRecording blobType s =
     (let s1 = resetAudio s;
          s2 = setProgress (Some (Num 0)) s1;
          (blobUrl, s3) = createObjectURL s2
      in s3\<lparr>readers := readers s3 @ [RecordingRead blobUrl blobType]\<rparr>)"

definition RecordTile_setAudioData :: "string \<Rightarrow> ('b, 'n) Manager \<Rightarrow> ('b, 'n) Manager" where
  "RecordTile_setAudioData blobType s = setAudioFromRecording blobType (onInputChange s)"

definition recording :: "nat \<Rightarrow> ('b, 'n) Manager \<Rightarrow> bool" where
  "recording k s \<longleftrightarrow>
     k < length (readers s) \<and>
     (case readers s ! k of RecordingRead blobUrl blobType \<Rightarrow> True | _ \<Rightarrow> False)"

text \<open>\<^verbatim>\<open>fileReader.onprogress\<close> of reader \<open>k\<close> with \<^verbatim>\<open>event.loaded\<close>, \<^verbatim>\<open>event.total\<close>.\<close>

definition fileReader_onprogress ::
  "nat \<Rightarrow> nat \<Rightarrow> nat \<Rightarrow> ('b, 'n) Manager \<Rightarrow> ('b, 'n) Manager" where
  "fileReader_onprogress k loaded tot s =
     (if recording k s then setProgress (Some (or_zero (Some (js_div loaded tot)))) s else s)"

text \<open>\<^verbatim>\<open>fileReader.onloadend\<close> of reader \<open>k\<close> with the outcome of the decoding.\<close>

definition fileReader_onloadend ::
  "nat \<Rightarrow> 'b option \<Rightarrow> ('b, 'n) Manager \<Rightarrow> ('b, 'n) Manager" where
  "fileReader_onloadend k res s =
     (if k < length (readers s)
      then (case readers s ! k of
              RecordingRead blobUrl blobType \<Rightarrow>
                (let s1 = s\<lparr>readers := (readers s)[k := Closed]\<rparr>
                 in case res of
                      None \<Rightarrow> s1
                    | Some decoded \<Rightarrow>
                        setAudioData (Some (Reader k))
                          (Some \<lparr>buffer = decoded, url = BlobUrl blobUrl,
                                 source = RECORDING, mimeType = blobType\<rparr>)
                          (setProgress None s1))
            | _ \<Rightarrow> s)
      else s)"

section \<open>The test-corpus adapter\<close>

text \<open>\<^verbatim>\<open>import.meta.env.BASE_URL\<close> is the \<^verbatim>\<open>base\<close> of the Vite configuration.\<close>

definition BASE_URL :: string where
  "BASE_URL = ''/chat_new/''"

definition audioFilesPath :: string where
  "audioFilesPath = BASE_URL @ ''test-clean/''"

definition transcriptionsFile :: string where
  "transcriptionsFile = audioFilesPath @ ''61-70968.trans.txt''"

text \<open>What \<^verbatim>\<open>handleClick\<close> writes to the console.\<close>

datatype console = ErrorLoadingFile string | ErrorFetchingTranscriptions | TestFilesLoaded nat

text \<open>
  The \<^verbatim>\<open>for (const line of lines)\<close> loop of \<^verbatim>\<open>handleClick\<close>. The environment
  \<open>fetchAudio\<close> answers a resource path with the decoded buffer and the
  \<^verbatim>\<open>Content-Type\<close> header, or with \<open>None\<close> when \<^verbatim>\<open>fetch\<close>,
  \<^verbatim>\<open>arrayBuffer\<close> or \<^verbatim>\<open>decodeAudioData\<close> rejects.
\<close>

fun load_lines ::
  "(string \<Rightarrow> ('b \<times> string option) option) \<Rightarrow> string list \<Rightarrow>
   'b TestAudio list \<times> console list \<Rightarrow> 'b TestAudio list \<times> console list" where
  "load_lines fetchAudio [] acc = acc"
| "load_lines fetchAudio (line # rest) (loaded, out) =
     (case indexOf CHR '' '' line of
        None \<Rightarrow> load_lines fetchAudio rest (loaded, out)
      | Some firstSpaceIndex \<Rightarrow>
          (let fname = substring line 0 firstSpaceIndex;
               truth = trim (substringFrom line (firstSpaceIndex + 1));
               audioFilePath = audioFilesPath @ fname @ ''.flac''
           in case fetchAudio audioFilePath of
                None \<Rightarrow>
                  load_lines fetchAudio rest (loaded, out @ [ErrorLoadingFile audioFilePath])
              | Some (decoded, contentType) \<Rightarrow>
                  load_lines fetchAudio rest
                    (loaded @
                       [\<lparr>buffer = decoded, url = ResourceUrl audioFilePath, source = TEST,
                         mimeType = or_default contentType ''audio/wav'',
                         TestAudio.filename = fname, TestAudio.transcription = truth\<rparr>],
                     out)))"

text \<open>
  \<^verbatim>\<open>handleClick\<close> of the test tile. \<open>fetchText\<close> answers a path with the text of
  the resource, or \<open>None\<close> when \<^verbatim>\<open>fetch\<close> or \<^verbatim>\<open>text\<close> rejects. The first
  component is the argument of \<^verbatim>\<open>props.onFilesLoaded\<close>, \<open>None\<close> when the
  callback is not called; the second is the console output.
\<close>

definition handleClick ::
  "(string \<Rightarrow> string option) \<Rightarrow> (string \<Rightarrow> ('b \<times> string option) option) \<Rightarrow>
   'b TestAudio list option \<times> console list" where
  "handleClick fetchText fetchAudio =
     (case fetchText transcriptionsFile of
        None \<Rightarrow> (None, [ErrorFetchingTranscriptions])
      | Some manifest \<Rightarrow>
          (let entries = filter (\<lambda>line. trim line \<noteq> []) (split LF manifest);
               (loaded, out) = load_lines fetchAudio entries ([], [])
           in (Some loaded, out @ [TestFilesLoaded (length loaded)])))"

definition onFilesLoaded :: "'b TestAudio list \<Rightarrow> ('b, 'n) Manager \<Rightarrow> ('b, 'n) Manager" where
  "onFilesLoaded loaded s = setAudioDataList loaded (onInputChange s)"

definition TestTile_click ::
  "(string \<Rightarrow> string option) \<Rightarrow> (string \<Rightarrow> ('b \<times> string option) option) \<Rightarrow>
   ('b, 'n) Manager \<Rightarrow> ('b, 'n) Manager" where
  "TestTile_click fetchText fetchAudio s =
     (case fst (handleClick fetchText fetchAudio) of
        None \<Rightarrow> s
      | Some loaded \<Rightarrow> onFilesLoaded loaded s)"

section \<open>Batch evaluation\<close>

text \<open>
  The body of the loop of \<^verbatim>\<open>transcribeAllFiles\<close> for index \<open>i\<close>: \<open>result\<close> is
  declared without a value and is assigned only when \<^verbatim>\<open>start\<close> resolves with data,
  so it is \<^verbatim>\<open>undefined\<close> (\<open>None\<close>) on the two other paths.
\<close>

definition batch_result :: "'b TestAudio \<Rightarrow> 'n outcome \<Rightarrow> 'n TranscriptionResult option" where
  "batch_result audio out =
     (case out of
        Resolved (Some transcribedData) \<Rightarrow>
          Some \<lparr>TranscriptionResult.filename = TestAudio.filename audio,
                groundTruth = TestAudio.transcription audio,
                transcription = text_d transcribedData,
                latency = TranscribedData.latency transcribedData\<rparr>
      | Resolved None \<Rightarrow> None
      | Rejected \<Rightarrow> None)"

text \<open>
  The loop \<^verbatim>\<open>for (let i = 0; i < totalFiles; i++)\<close> over the list the closure
  holds; \<open>start i\<close> is the outcome of the awaited call number \<open>i\<close>.
\<close>

function batch_loop ::
  "(nat \<Rightarrow> 'b \<Rightarrow> 'n outcome) \<Rightarrow> 'b TestAudio list \<Rightarrow> nat \<Rightarrow>
   ('b, 'n) Manager \<Rightarrow> ('b, 'n) Manager" where
  "batch_loop start files i s =
     (let totalFiles = length files
      in if i < totalFiles
         then let audio = files ! i;
                  result = batch_result audio (start i (buffer audio));
                  s0 = record_call (StartSettled i) s;
                  s1 = setTestProgress
                         (Num ((of_nat (i + 1) / of_nat totalFiles) * 100)) s0;
                  s2 = setTranscriptionResults (transcriptionResults s1 @ [result]) s1
              in batch_loop start files (i + 1) s2
         else s)"
  by pat_completeness auto
termination
  by (relation "measure (\<lambda>(start, files, i, s). length files - i)") auto

definition transcribeAllFiles ::
  "(nat \<Rightarrow> 'b \<Rightarrow> 'n outcome) \<Rightarrow> ('b, 'n) Manager \<Rightarrow> ('b, 'n) Manager" where
  "transcribeAllFiles start s =
     (let s1 = setTestProgress (Num 0) s;
          s2 = setTranscriptionResults [] s1
      in batch_loop start (audioDataList s) 0 s2)"




text \<open>Two entries of a manifest as the test-corpus adapter loads them, for examples.\<close>

definition A01 :: "nat TestAudio" where
  "A01 = \<lparr>buffer = 1, url = ResourceUrl ''/chat_new/test-clean/A01.flac'', source = TEST,
           mimeType = ''audio/flac'', TestAudio.filename = ''A01'',
           TestAudio.transcription = ''THE QUICK FOX''\<rparr>"

definition A02 :: "nat TestAudio" where
  "A02 = \<lparr>buffer = 2, url = ResourceUrl ''/chat_new/test-clean/A02.flac'', source = TEST,
           mimeType = ''audio/flac'', TestAudio.filename = ''A02'',
           TestAudio.transcription = ''HELLO WORLD''\<rparr>"

section \<open>The exported report\<close>

datatype js_error = TypeError

text \<open>
  The template literal of \<^verbatim>\<open>CopyButton\<close> for one entry; \<open>numstr\<close> is the
  conversion of a number to a string.
\<close>

definition block :: "('n \<Rightarrow> string) \<Rightarrow> 'n TranscriptionResult \<Rightarrow> string" where
  "block numstr data =
     numstr (latency data) @ [LF] @ trim (toLowerCase (groundTruth data)) @ [LF]
     @ trim (toLowerCase (transcription data))"

text \<open>
  \<^verbatim>\<open>concatenatedResults\<close>: reading \<^verbatim>\<open>data.latency\<close> of an entry that is
  \<^verbatim>\<open>undefined\<close> throws.
\<close>

definition concatenatedResults ::
  "('n \<Rightarrow> string) \<Rightarrow> 'n TranscriptionResult option list \<Rightarrow> js_error + string" where
  "concatenatedResults numstr rs =
     (case those rs of
        None \<Rightarrow> Inl TypeError
      | Some ds \<Rightarrow> Inr (join [LF] (map (block numstr) ds)))"

text \<open>
  Modelled from the spec: the parser of the exported batch report, which the
  repository does not contain. The report is newline-delimited text with one block of
  three lines per item: latency, ground truth, transcription.
\<close>

fun blocks3 :: "string list \<Rightarrow> (string \<times> string \<times> string) list" where
  "blocks3 (a # b # c # rest) = (a, b, c) # blocks3 rest"
| "blocks3 rest = []"

definition parseReport :: "string \<Rightarrow> (string \<times> string \<times> string) list" where
  "parseReport report = (if report = [] then [] else blocks3 (split LF report))"

section \<open>The component as a transition system\<close>

text \<open>
  What can happen to the component: a user action on a tile, or the completion of an
  asynchronous operation it started. Requests and readers are named by their position
  in \<open>requests\<close> and \<open>readers\<close>; an event for a request or reader that is not
  waiting for it changes nothing. The batch that the effect on \<open>audioDataList\<close>
  starts is \<open>transcribeAllFiles\<close> above, on its own.
\<close>

datatype 'b event =
    UrlUpdate string
  | DownloadProgress nat "jsnum option"
  | DownloadResolved nat "string option"
  | DownloadRejected nat
  | DownloadDecoded nat "'b option"
  | FileInput string
  | FileLoad nat "'b option"
  | RecordingSubmit string
  | RecordingProgress nat nat nat
  | RecordingLoadEnd nat "'b option"
  | TestClick "string \<Rightarrow> string option" "string \<Rightarrow> ('b \<times> string option) option"

fun handler :: "'b event \<Rightarrow> ('b, 'n) Manager \<Rightarrow> ('b, 'n) Manager" where
  "handler (UrlUpdate e) s = onUrlUpdate e s"
| "handler (DownloadProgress r p) s = onDownloadProgress r p s"
| "handler (DownloadResolved r header) s = downloadAudioFromUrl_resolved r header s"
| "handler (DownloadRejected r) s = downloadAudioFromUrl_rejected r s"
| "handler (DownloadDecoded r res) s = setAudioFromDownload_decoded r res s"
| "handler (FileInput mime) s = FileTile_oninput mime s"
| "handler (FileLoad k res) s = FileTile_load k res s"
| "handler (RecordingSubmit blobType) s = RecordTile_setAudioData blobType s"
| "handler (RecordingProgress k loaded tot) s = fileReader_onprogress k loaded tot s"
| "handler (RecordingLoadEnd k res) s = fileReader_onloadend k res s"
| "handler (TestClick fetchText fetchAudio) s = TestTile_click fetchText fetchAudio s"

text \<open>One event: its handler, then the effects React runs after the render.\<close>

definition step :: "'b event \<Rightarrow> ('b, 'n) Manager \<Rightarrow> ('b, 'n) Manager" where
  "step e s = urlEffect (audioDownloadUrl s) (handler e s)"

fun run :: "'b event list \<Rightarrow> ('b, 'n) Manager \<Rightarrow> ('b, 'n) Manager" where
  "run [] s = s"
| "run (e # es) s = run es (step e s)"

text \<open>The calls made during one event.\<close>

definition emitted :: "'b event \<Rightarrow> ('b, 'n) Manager \<Rightarrow> action list" where
  "emitted e s = drop (length (trace s)) (trace (step e s))"

text \<open>The events in which the user invokes a source adapter.\<close>

fun adapter_call :: "'b event \<Rightarrow> bool" where
  "adapter_call (UrlUpdate e) = True"
| "adapter_call (FileInput mime) = True"
| "adapter_call (FileLoad k res) = True"
| "adapter_call (RecordingSubmit blobType) = True"
| "adapter_call (TestClick fetchText fetchAudio) = True"
| "adapter_call e = False"

text \<open>Mutations of the audio session state: audio, download URL, batch list, progress.\<close>

fun is_mutation :: "action \<Rightarrow> bool" where
  "is_mutation (SetProgress v) = True"
| "is_mutation (SetAudioData org) = True"
| "is_mutation (SetAudioDownloadUrl v) = True"
| "is_mutation (SetAudioDataList n) = True"
| "is_mutation a = False"

text \<open>No mutation comes before the first input-changed signal.\<close>

fun signalled_first :: "action list \<Rightarrow> bool" where
  "signalled_first [] = True"
| "signalled_first (a # as) = (a = InputChange \<or> (\<not> is_mutation a \<and> signalled_first as))"

text \<open>The three lines of one block of the report.\<close>

definition fields :: "('n \<Rightarrow> string) \<Rightarrow> 'n TranscriptionResult \<Rightarrow> string list" where
  "fields numstr data =
     [numstr (latency data), trim (toLowerCase (groundTruth data)),
      trim (toLowerCase (transcription data))]"

text \<open>Two result records, for examples; the latency is given by its rendering.\<close>

definition fox :: "string TranscriptionResult" where
  "fox = \<lparr>TranscriptionResult.filename = ''A01'', groundTruth = ''THE QUICK FOX'',
           transcription = '' The quick fox.'', latency = ''1.5''\<rparr>"

definition hello :: "string TranscriptionResult" where
  "hello = \<lparr>TranscriptionResult.filename = ''A02'', groundTruth = ''HELLO WORLD'',
           transcription = ''Hello'' @ [LF] @ ''world'', latency = ''2''\<rparr>"







text \<open>
  Predicates on the history of the component, for the invariants of the URL adapter:
  the audio decoded from request \<open>r\<close> has been installed; request \<open>r\<close> has ended
  in the final state \<open>p\<close>; and the invariant that a request in flight is the one
  owned by the current run of the URL effect, and that an installed request is settled.
\<close>

definition installed :: "nat \<Rightarrow> ('b, 'n) Manager \<Rightarrow> bool" where
  "installed r s \<longleftrightarrow> SetAudioData (Some (Request r)) \<in> set (trace s)"

definition closed_as :: "request \<Rightarrow> nat \<Rightarrow> ('b, 'n) Manager \<Rightarrow> bool" where
  "closed_as p r s \<longleftrightarrow>
     (p = Cancelled \<or> p = Failed \<or> p = Settled) \<and> r < length (requests s) \<and> requests s ! r = p"

definition consistent :: "('b, 'n) Manager \<Rightarrow> bool" where
  "consistent s \<longleftrightarrow>
     (\<forall>r. in_flight r s \<longrightarrow> controller s = Some r) \<and>
     (\<forall>r. installed r s \<longrightarrow> r < length (requests s) \<and> requests s ! r = Settled)"

section \<open>MIME type of a download\<close>

text \<open>
  C2. For every declared MIME string received with a URL download: when it is empty or
  equal to \<^verbatim>\<open>audio/wave\<close>, the audio installed after the decoding carries
  \<^verbatim>\<open>audio/wav\<close> in its \<open>mimeType\<close> field; every other string is recorded
  unchanged.
\<close>

theorem url_mime_normalized:
  assumes "in_flight r s"
  shows "map_option mimeType
           (audioData (setAudioFromDownload_decoded r (Some decoded)
              (downloadAudioFromUrl_resolved r (Some m) s)))
         = Some (if m = [] \<or> m = ''audio/wave'' then ''audio/wav'' else m)"
  using assms
  by (simp add: in_flight_def downloadAudioFromUrl_resolved_def setAudioFromDownload_def
      createObjectURL_def record_call_def setProgress_def setAudioFromDownload_decoded_def
      setAudioData_def download_mimeType_def Let_def)

theorem url_mime_normalized_witness:
  "in_flight 0 (step (UrlUpdate ''u'') (init :: (nat, nat) Manager)) \<and>
   map_option mimeType
     (audioData (setAudioFromDownload_decoded 0 (Some (7::nat))
        (downloadAudioFromUrl_resolved 0 (Some ''audio/wave'')
           (step (UrlUpdate ''u'') (init :: (nat, nat) Manager)))))
   = Some ''audio/wav''"
proof -
  have h: "in_flight 0 (step (UrlUpdate ''u'') (init :: (nat, nat) Manager))"
    by code_simp
  from url_mime_normalized [OF h, of 7 "''audio/wave''"] h show ?thesis
    by simp
qed

section \<open>Progress of a load\<close>

text \<open>
  A read whose total is unknown (\<^verbatim>\<open>event.total\<close> is 0) after the first bytes:
  the ratio is infinite, which is truthy, and is installed as it is.
\<close>

lemma progress_unknown_total:
  "recording k s \<Longrightarrow> 0 < loaded \<Longrightarrow>
   progress (fileReader_onprogress k loaded 0 s) = Some PosInfinity"
  by (simp add: fileReader_onprogress_def setProgress_def record_call_def or_zero_def
      js_div_def)

text \<open>
  C10. For every progress event of a recording read or of a URL download, the value
  installed in \<open>progress\<close> is a defined number and not NaN; when the ratio
  \<^verbatim>\<open>loaded / total\<close> is NaN, or the \<^verbatim>\<open>progress\<close> field of the event is missing
  or NaN, the value installed is 0.
\<close>

theorem progress_defined:
  assumes "recording k s" and "in_flight r s'"
  shows "(\<exists>v. progress (fileReader_onprogress k loaded tot s) = Some v \<and> v \<noteq> NaN)
       \<and> (js_div loaded tot = NaN \<longrightarrow>
            progress (fileReader_onprogress k loaded tot s) = Some (Num 0))
       \<and> (\<exists>v. progress (onDownloadProgress r p s') = Some v \<and> v \<noteq> NaN)
       \<and> (p = None \<or> p = Some NaN \<longrightarrow>
            progress (onDownloadProgress r p s') = Some (Num 0))"
  using assms
  by (auto simp: fileReader_onprogress_def onDownloadProgress_def setProgress_def
      record_call_def or_zero_def js_div_def split: option.splits)

theorem progress_defined_witness:
  "recording 0 (step (RecordingSubmit ''audio/webm'') (init :: (nat, nat) Manager)) \<and>
   in_flight 0 (step (UrlUpdate ''u'') (init :: (nat, nat) Manager)) \<and>
   js_div 0 0 = NaN \<and>
   progress (fileReader_onprogress 0 0 0
      (step (RecordingSubmit ''audio/webm'') (init :: (nat, nat) Manager))) = Some (Num 0) \<and>
   progress (onDownloadProgress 0 None
      (step (UrlUpdate ''u'') (init :: (nat, nat) Manager))) = Some (Num 0)"
proof -
  have h1: "recording 0 (step (RecordingSubmit ''audio/webm'') (init :: (nat, nat) Manager))"
    by code_simp
  have h2: "in_flight 0 (step (UrlUpdate ''u'') (init :: (nat, nat) Manager))"
    by code_simp
  have h3: "js_div 0 0 = NaN"
    by (simp add: js_div_def)
  from progress_defined [OF h1 h2, of 0 0 None] h1 h2 h3 show ?thesis
    by simp
qed

section \<open>Batch evaluation: results and progress\<close>

declare batch_loop.simps [simp del]

lemma batch_loop_results:
  "transcriptionResults (batch_loop start files i s) =
     transcriptionResults s @
     map (\<lambda>j. batch_result (files ! j) (start j (buffer (files ! j)))) [i..<length files]"
proof (induction start files i s rule: batch_loop.induct)
  case (1 start files i s)
  show ?case
  proof (cases "i < length files")
    case True
    then show ?thesis
      using "1.IH" [OF refl True refl refl refl refl refl]
      by (subst batch_loop.simps)
         (simp add: Let_def setTestProgress_def setTranscriptionResults_def record_call_def
            upt_conv_Cons)
  next
    case False
    then show ?thesis
      by (subst batch_loop.simps) simp
  qed
qed




lemma transcribeAllFiles_results:
  "transcriptionResults (transcribeAllFiles start s) =
     map (\<lambda>j. batch_result (audioDataList s ! j) (start j (buffer (audioDataList s ! j))))
       [0..<length (audioDataList s)]"
  by (simp add: transcribeAllFiles_def Let_def batch_loop_results setTestProgress_def
      setTranscriptionResults_def record_call_def)






text \<open>
  C1. Batch evaluation over N items leaves N entries in \<open>transcriptionResults\<close>, in
  input order (\<open>transcribeAllFiles_results\<close>). The entry of an item whose call rejects
  is not a record with its transcription and latency absent: it is \<^verbatim>\<open>undefined\<close>,
  so the identifier and the ground truth of the failed item are not in the results. Here
  the call for the first of two items rejects.
\<close>

theorem failed_item_entry:
  "transcriptionResults
     (transcribeAllFiles
        (\<lambda>i b. if i = 0 then Rejected
                else Resolved (Some \<lparr>text_d = ''Hello world'', TranscribedData.latency = (2::nat)\<rparr>))
        ((init :: (nat, nat) Manager)\<lparr>audioDataList := [A01, A02]\<rparr>))
   = [None,
      Some \<lparr>TranscriptionResult.filename = ''A02'', groundTruth = ''HELLO WORLD'',
            transcription = ''Hello world'', latency = 2\<rparr>]"
  by (simp add: transcribeAllFiles_results init_def batch_result_def A01_def A02_def upt_rec)



section \<open>The exported report: round trip\<close>

lemma split_no_sep: "c \<notin> set x \<Longrightarrow> split c x = [x]"
  by (induction x) auto

lemma split_append_sep: "c \<notin> set x \<Longrightarrow> split c (x @ c # rest) = x # split c rest"
  by (induction x) auto

lemma split_join:
  "ls \<noteq> [] \<Longrightarrow> \<forall>l \<in> set ls. c \<notin> set l \<Longrightarrow> split c (join [c] ls) = ls"
proof (induction "[c]" ls rule: join.induct)
  case 1
  then show ?case by simp
next
  case (2 x)
  then show ?case by (simp add: split_no_sep)
next
  case (3 x y ys)
  then show ?case by (simp add: split_append_sep)
qed

lemma join_append:
  "xs \<noteq> [] \<Longrightarrow> ys \<noteq> [] \<Longrightarrow> join sep (xs @ ys) = join sep xs @ sep @ join sep ys"
proof (induction sep xs rule: join.induct)
  case (1 sep)
  then show ?case by simp
next
  case (2 sep x)
  then show ?case by (cases ys) simp_all
next
  case (3 sep x y ys)
  then show ?case by simp
qed

lemma block_fields: "block numstr d = join [LF] (fields numstr d)"
  by (simp add: block_def fields_def)

lemma fields_ne: "concat (map (fields numstr) (e # ds)) \<noteq> []"
  by (simp add: fields_def)

lemma join_blocks:
  "join [LF] (map (block numstr) ds) = join [LF] (concat (map (fields numstr) ds))"
proof (induction ds)
  case Nil
  then show ?case by simp
next
  case (Cons d ds)
  show ?case
  proof (cases ds)
    case Nil
    then show ?thesis by (simp add: block_fields)
  next
    case (Cons e es)
    have "join [LF] (map (block numstr) (d # e # es))
          = block numstr d @ [LF] @ join [LF] (map (block numstr) (e # es))"
      by simp
    also have "\<dots> = block numstr d @ [LF]
                      @ join [LF] (concat (map (fields numstr) (e # es)))"
      using Cons.IH Cons by simp
    also have "\<dots> = join [LF] (fields numstr d) @ [LF]
                      @ join [LF] (concat (map (fields numstr) (e # es)))"
      by (simp only: block_fields)
    also have "\<dots> = join [LF] (fields numstr d @ concat (map (fields numstr) (e # es)))"
      by (rule join_append [symmetric]) (simp_all add: fields_def)
    finally show ?thesis using Cons by simp
  qed
qed

lemma length_fields: "length (concat (map (fields numstr) ds)) = 3 * length ds"
  by (induction ds) (simp_all add: fields_def)

lemma concat_fields:
  "concat (map (fields numstr) ds)
     = concat (map (\<lambda>d. [numstr (latency d), trim (toLowerCase (groundTruth d)),
                         trim (toLowerCase (transcription d))]) ds)"
  by (induction ds) (simp_all add: fields_def)

lemma blocks3_fields:
  "blocks3 (concat (map (fields numstr) ds))
     = map (\<lambda>d. (numstr (latency d), trim (toLowerCase (groundTruth d)),
                 trim (toLowerCase (transcription d)))) ds"
  by (induction ds) (simp_all add: fields_def)

text \<open>
  C5, as stated, fails on a transcription with a line feed inside: the block of that
  record has four lines, and the parser reads a truncated transcription.
\<close>

theorem report_newline_counterexample:
  "concatenatedResults id [Some hello]
     = Inr (''2'' @ [LF] @ ''hello world'' @ [LF] @ ''hello'' @ [LF] @ ''world'')
   \<and> length (split LF (''2'' @ [LF] @ ''hello world'' @ [LF] @ ''hello'' @ [LF] @ ''world'')) = 4
   \<and> parseReport (''2'' @ [LF] @ ''hello world'' @ [LF] @ ''hello'' @ [LF] @ ''world'')
       = [(''2'', ''hello world'', ''hello'')]
   \<and> trim (toLowerCase (transcription hello)) = ''hello'' @ [LF] @ ''world''"
  by (intro conjI; code_simp)

text \<open>
  C5, amended. When every entry is a record and no exported field (latency, lowercased
  trimmed ground truth, lowercased trimmed transcription) contains a line feed, the
  report is one block of three lines per record, in that order, and parsing it gives
  back the three strings of every record.
\<close>

theorem report_round_trip:
  assumes "those rs = Some ds"
    and "\<forall>d \<in> set ds. LF \<notin> set (numstr (latency d))
                     \<and> LF \<notin> set (trim (toLowerCase (groundTruth d)))
                     \<and> LF \<notin> set (trim (toLowerCase (transcription d)))"
  shows "\<exists>report. concatenatedResults numstr rs = Inr report
           \<and> (ds \<noteq> [] \<longrightarrow>
                split LF report
                  = concat (map (\<lambda>d. [numstr (latency d), trim (toLowerCase (groundTruth d)),
                                      trim (toLowerCase (transcription d))]) ds))
           \<and> parseReport report
               = map (\<lambda>d. (numstr (latency d), trim (toLowerCase (groundTruth d)),
                           trim (toLowerCase (transcription d)))) ds"
proof -
  let ?report = "join [LF] (map (block numstr) ds)"
  let ?ls = "concat (map (fields numstr) ds)"
  have rep: "concatenatedResults numstr rs = Inr ?report"
    using assms(1) by (simp add: concatenatedResults_def)
  have nolf: "\<forall>l \<in> set ?ls. LF \<notin> set l"
    using assms(2) by (auto simp: fields_def)
  have sp: "split LF ?report = ?ls" if "ds \<noteq> []"
  proof -
    from that have "?ls \<noteq> []" by (cases ds) (simp_all add: fields_def)
    with nolf show ?thesis by (simp add: join_blocks split_join)
  qed
  have fl: "?ls = concat (map (\<lambda>d. [numstr (latency d), trim (toLowerCase (groundTruth d)),
                                      trim (toLowerCase (transcription d))]) ds)"
    by (rule concat_fields)
  have pr: "parseReport ?report
              = map (\<lambda>d. (numstr (latency d), trim (toLowerCase (groundTruth d)),
                          trim (toLowerCase (transcription d)))) ds"
  proof (cases "ds = []")
    case True
    then show ?thesis by (simp add: parseReport_def)
  next
    case False
    have "length (split LF ?report) = 3 * length ds"
      using sp [OF False] by (simp add: length_fields)
    with False have "length (split LF ?report) \<noteq> 1" by (cases ds) simp_all
    then have "?report \<noteq> []" by auto
    then show ?thesis
      using sp [OF False] by (simp add: parseReport_def blocks3_fields)
  qed
  from rep sp fl pr show ?thesis by auto
qed

theorem report_round_trip_witness:
  "those [Some fox] = Some [fox]
   \<and> LF \<notin> set (id (latency fox))
   \<and> LF \<notin> set (trim (toLowerCase (groundTruth fox)))
   \<and> LF \<notin> set (trim (toLowerCase (transcription fox)))
   \<and> concatenatedResults id [Some fox]
       = Inr (''1.5'' @ [LF] @ ''the quick fox'' @ [LF] @ ''the quick fox.'')
   \<and> parseReport (''1.5'' @ [LF] @ ''the quick fox'' @ [LF] @ ''the quick fox.'')
       = [(''1.5'', ''the quick fox'', ''the quick fox.'')]"
proof -
  have h1: "those [Some fox] = Some [fox]"
    by simp
  have g: "trim (toLowerCase (groundTruth fox)) = ''the quick fox''"
    by code_simp
  have t: "trim (toLowerCase (transcription fox)) = ''the quick fox.''"
    by code_simp
  have l: "latency fox = ''1.5''"
    by (simp add: fox_def)
  have h2: "\<forall>d \<in> set [fox]. LF \<notin> set (id (latency d))
                     \<and> LF \<notin> set (trim (toLowerCase (groundTruth d)))
                     \<and> LF \<notin> set (trim (toLowerCase (transcription d)))"
    by (simp add: g t l LF_def)
  have e: "concatenatedResults id [Some fox]
             = Inr (''1.5'' @ [LF] @ ''the quick fox'' @ [LF] @ ''the quick fox.'')"
    by (simp add: concatenatedResults_def block_def g t l)
  from report_round_trip [OF h1 h2] obtain report
    where r: "concatenatedResults id [Some fox] = Inr report"
      and p: "parseReport report
                = map (\<lambda>d. (id (latency d), trim (toLowerCase (groundTruth d)),
                              trim (toLowerCase (transcription d)))) [fox]"
    by blast
  from r e have "report = ''1.5'' @ [LF] @ ''the quick fox'' @ [LF] @ ''the quick fox.''"
    by simp
  with p have "parseReport (''1.5'' @ [LF] @ ''the quick fox'' @ [LF] @ ''the quick fox.'')
                 = [(''1.5'', ''the quick fox'', ''the quick fox.'')]"
    by (simp add: g t l)
  with e h1 h2 show ?thesis
    by simp
qed

section \<open>The test-corpus adapter: partial failure\<close>







section \<open>Frame properties of the handlers and of the URL effect\<close>

lemmas setter_defs =
  setProgress_def setAudioData_def setAudioDownloadUrl_def setAudioDataList_def
  onInputChange_def createObjectURL_def record_call_def Let_def

lemmas handler_defs =
  onUrlUpdate_def onDownloadProgress_def downloadAudioFromUrl_resolved_def
  downloadAudioFromUrl_rejected_def downloadAudioFromUrl_caught_def
  setAudioFromDownload_def setAudioFromDownload_decoded_def
  FileTile_oninput_def FileTile_load_def onFileUpdate_def setAudioFromRecording_def
  RecordTile_setAudioData_def fileReader_onprogress_def fileReader_onloadend_def
  TestTile_click_def onFilesLoaded_def resetAudio_def

lemmas effect_defs =
  urlEffect_def abort_def downloadAudioFromUrl_def downloadAudioFromUrl_caught_def

lemma handler_controller: "controller (handler e s) = controller s"
  by (cases e)
     (simp_all add: handler_defs setter_defs split: option.splits request.splits reader.splits)

lemma handler_length: "length (requests (handler e s)) = length (requests s)"
  by (cases e)
     (simp_all add: handler_defs setter_defs split: option.splits request.splits reader.splits)

lemma handler_in_flight: "in_flight r (handler e s) \<Longrightarrow> in_flight r s"
  by (cases e)
     (auto simp add: handler_defs setter_defs in_flight_def nth_list_update
        split: option.splits request.splits reader.splits if_splits)

lemma handler_closed: "closed_as p r s \<Longrightarrow> closed_as p r (handler e s)"
  by (cases e)
     (auto simp add: handler_defs setter_defs in_flight_def closed_as_def nth_list_update
        split: option.splits request.splits reader.splits if_splits)

lemma handler_installed:
  "installed r (handler e s) \<Longrightarrow> installed r s \<or> closed_as Settled r (handler e s)"
  by (cases e)
     (auto simp add: handler_defs setter_defs installed_def closed_as_def
        split: option.splits request.splits reader.splits if_splits)

lemma handler_url_unchanged:
  "\<not> (\<exists>u. e = UrlUpdate u) \<Longrightarrow> \<not> (\<exists>b. e = RecordingSubmit b) \<Longrightarrow>
   audioDownloadUrl (handler e s) = audioDownloadUrl s"
  by (cases e)
     (simp_all add: handler_defs setter_defs split: option.splits request.splits reader.splits)

lemma effect_closed: "closed_as p r s \<Longrightarrow> closed_as p r (urlEffect prev s)"
  by (auto simp add: effect_defs setter_defs in_flight_def closed_as_def nth_list_update
        nth_append split: option.splits if_splits)

lemma effect_installed: "installed r (urlEffect prev s) = installed r s"
  by (auto simp add: effect_defs setter_defs installed_def split: option.splits if_splits)

lemma effect_trace: "\<exists>ys. trace (urlEffect prev s) = trace s @ ys"
  by (simp add: effect_defs setter_defs split: option.splits)

lemma effect_controller:
  "audioDownloadUrl s \<noteq> prev \<Longrightarrow>
   controller (urlEffect prev s)
     = (if truthy (audioDownloadUrl s) then Some (length (requests s)) else None)"
  by (simp add: effect_defs setter_defs in_flight_def split: option.splits)

lemma effect_requests:
  "audioDownloadUrl s \<noteq> prev \<Longrightarrow>
   requests (urlEffect prev s)
     = (case controller s of
          None \<Rightarrow> requests s
        | Some c \<Rightarrow> if in_flight c s then (requests s)[c := Cancelled] else requests s)
       @ (if truthy (audioDownloadUrl s) then [Pending] else [])"
  by (simp add: effect_defs setter_defs in_flight_def split: option.splits)

lemma effect_in_flight:
  assumes inv: "\<forall>r. in_flight r s \<longrightarrow> controller s = Some r"
    and r: "in_flight r (urlEffect prev s)"
  shows "controller (urlEffect prev s) = Some r"
proof (cases "audioDownloadUrl s = prev")
  case True
  with assms show ?thesis by (simp add: urlEffect_def)
next
  case False
  define old where
    "old = (case controller s of
              None \<Rightarrow> requests s
            | Some c \<Rightarrow> if in_flight c s then (requests s)[c := Cancelled] else requests s)"
  define new where "new = (if truthy (audioDownloadUrl s) then [Pending] else [])"
  have req: "requests (urlEffect prev s) = old @ new"
    using False by (simp add: effect_requests old_def new_def)
  have len: "length old = length (requests s)"
    by (simp add: old_def split: option.splits)
  have old: "old ! k \<noteq> Pending" if "k < length (requests s)" for k
  proof
    assume p: "old ! k = Pending"
    have "requests s ! k = Pending"
      using p that
      by (auto simp: old_def nth_list_update in_flight_def split: option.splits if_splits)
    with that have k: "in_flight k s" by (simp add: in_flight_def)
    with inv have "controller s = Some k" by simp
    with k p that show False by (simp add: old_def in_flight_def)
  qed
  from r req have bound: "r < length (old @ new)" and nth: "(old @ new) ! r = Pending"
    by (simp_all add: in_flight_def)
  have "\<not> r < length (requests s)"
    using old [of r] nth len by (auto simp: nth_append)
  with bound len have "truthy (audioDownloadUrl s) \<and> r = length (requests s)"
    by (auto simp: new_def split: if_splits)
  with False show ?thesis by (simp add: effect_controller)
qed

lemma revoked_handler: "revoked (handler e s) = revoked s"
  by (cases e)
     (simp_all add: handler_defs setter_defs split: option.splits request.splits reader.splits)

lemma revoked_effect: "revoked (urlEffect prev s) = revoked s"
  by (simp add: effect_defs setter_defs split: option.splits)

lemma revoked_run: "revoked (run evs s) = revoked s"
  by (induction evs arbitrary: s) (simp_all add: step_def revoked_handler revoked_effect)

section \<open>Cancellation of a superseded download\<close>

lemma consistent_init: "consistent init"
  by (simp add: consistent_def init_def in_flight_def installed_def)

lemma consistent_step:
  assumes "consistent s"
  shows "consistent (step e s)"
proof -
  have flight: "\<forall>r. in_flight r (handler e s) \<longrightarrow> controller (handler e s) = Some r"
    using assms handler_in_flight [of _ e s]
    by (auto simp: consistent_def handler_controller)
  have "controller (step e s) = Some r" if "in_flight r (step e s)" for r
    using that effect_in_flight [OF flight] by (simp add: step_def)
  moreover have "r < length (requests (step e s)) \<and> requests (step e s) ! r = Settled"
    if "installed r (step e s)" for r
  proof -
    from that have "installed r (handler e s)"
      by (simp add: step_def effect_installed)
    then have "closed_as Settled r (handler e s)"
      using handler_installed [of r e s] handler_closed [of Settled r s e] assms
      by (auto simp: consistent_def closed_as_def)
    then have "closed_as Settled r (step e s)"
      by (simp add: step_def effect_closed)
    then show ?thesis by (simp add: closed_as_def)
  qed
  ultimately show ?thesis by (simp add: consistent_def)
qed

lemma consistent_run: "consistent s \<Longrightarrow> consistent (run evs s)"
  by (induction evs arbitrary: s) (simp_all add: consistent_step)

lemma closed_step: "closed_as p r s \<Longrightarrow> closed_as p r (step e s)"
  by (simp add: step_def handler_closed effect_closed)

lemma closed_run: "closed_as p r s \<Longrightarrow> closed_as p r (run evs s)"
  by (induction evs arbitrary: s) (simp_all add: closed_step)

lemma cancel_on_update:
  assumes "in_flight r s" and "controller s = Some r" and "audioDownloadUrl s \<noteq> Some u"
  shows "closed_as Cancelled r (step (UrlUpdate u) s)
         \<and> Abort r \<in> set (trace (step (UrlUpdate u) s))"
  using assms
  by (auto simp add: step_def onUrlUpdate_def effect_defs setter_defs in_flight_def
      closed_as_def nth_append)

text \<open>
  C6, as stated, fails for a second request that carries the URL already being loaded:
  the cell \<open>audioDownloadUrl\<close> does not change, the effect is not run again, the first
  transfer is not aborted, and its audio is installed.
\<close>

theorem same_url_counterexample:
  "in_flight 0 (run [UrlUpdate ''u''] (init :: (nat, nat) Manager))
   \<and> Abort 0 \<notin> set (trace (step (UrlUpdate ''u'') (run [UrlUpdate ''u''] (init :: (nat, nat) Manager))))
   \<and> SetAudioData (Some (Request 0))
       \<in> set (trace (run [DownloadResolved 0 None, DownloadDecoded 0 (Some 1)]
             (step (UrlUpdate ''u'') (run [UrlUpdate ''u''] (init :: (nat, nat) Manager)))))
   \<and> map_option url (audioData (run [DownloadResolved 0 None, DownloadDecoded 0 (Some 1)]
             (step (UrlUpdate ''u'') (run [UrlUpdate ''u''] (init :: (nat, nat) Manager)))))
       = Some (BlobUrl 0)"
  by (intro conjI; code_simp)

text \<open>
  C6, amended. In every state the component can reach, when a request is in flight and a
  URL different from the current one is submitted, the transfer of the request is
  aborted, and whatever happens afterwards, a late arrival of its response included,
  the request stays cancelled and its audio is never installed.
\<close>

theorem stale_download_discarded:
  assumes "in_flight r (run evs0 (init :: ('b, 'n) Manager))" and "audioDownloadUrl (run evs0 (init :: ('b, 'n) Manager)) \<noteq> Some u"
  shows "Abort r \<in> set (trace (step (UrlUpdate u) (run evs0 (init :: ('b, 'n) Manager))))
         \<and> requests (run evs (step (UrlUpdate u) (run evs0 (init :: ('b, 'n) Manager)))) ! r = Cancelled
         \<and> SetAudioData (Some (Request r))
             \<notin> set (trace (run evs (step (UrlUpdate u) (run evs0 (init :: ('b, 'n) Manager)))))"
proof -
  let ?s = "run evs0 (init :: ('b, 'n) Manager)" and ?t = "run evs (step (UrlUpdate u) (run evs0 (init :: ('b, 'n) Manager)))"
  have c: "consistent ?s"
    by (rule consistent_run [OF consistent_init])
  with assms(1) have "controller ?s = Some r"
    by (auto simp: consistent_def)
  with assms have k: "closed_as Cancelled r (step (UrlUpdate u) ?s)"
    and a: "Abort r \<in> set (trace (step (UrlUpdate u) ?s))"
    using cancel_on_update [of r ?s u] by simp_all
  from k have cancelled: "requests ?t ! r = Cancelled"
    using closed_run [of Cancelled r "step (UrlUpdate u) ?s" evs] by (simp add: closed_as_def)
  have "consistent ?t"
    by (intro consistent_run consistent_step c)
  with cancelled have "\<not> installed r ?t"
    by (auto simp: consistent_def)
  with a cancelled show ?thesis
    by (simp add: installed_def)
qed

theorem stale_download_discarded_witness:
  "in_flight 0 (run [UrlUpdate ''u''] (init :: (nat, nat) Manager))
   \<and> audioDownloadUrl (run [UrlUpdate ''u''] (init :: (nat, nat) Manager)) \<noteq> Some ''v''
   \<and> Abort 0 \<in> set (trace (step (UrlUpdate ''v'') (run [UrlUpdate ''u''] (init :: (nat, nat) Manager))))
   \<and> requests (run [DownloadResolved 0 None, DownloadDecoded 0 (Some 1)]
        (step (UrlUpdate ''v'') (run [UrlUpdate ''u''] (init :: (nat, nat) Manager)))) ! 0 = Cancelled
   \<and> SetAudioData (Some (Request 0))
       \<notin> set (trace (run [DownloadResolved 0 None, DownloadDecoded 0 (Some 1)]
             (step (UrlUpdate ''v'') (run [UrlUpdate ''u''] (init :: (nat, nat) Manager)))))"
proof -
  have h1: "in_flight 0 (run [UrlUpdate ''u''] (init :: (nat, nat) Manager))"
    by code_simp
  have h2: "audioDownloadUrl (run [UrlUpdate ''u''] (init :: (nat, nat) Manager)) \<noteq> Some ''v''"
    by code_simp
  from stale_download_discarded [OF h1 h2, of "[DownloadResolved 0 None, DownloadDecoded 0 (Some 1)]"]
    h1 h2 show ?thesis
    by simp
qed

section \<open>Order of signal and mutation in the adapters\<close>

lemma emitted_cases:
  assumes "adapter_call e"
  shows "emitted e s = [] \<or> (\<exists>h. emitted e s = [CreateObjectURL h])
         \<or> (\<exists>rest. emitted e s = InputChange # rest)"
proof (cases e)
  case (UrlUpdate u)
  obtain ys where "trace (step e s) = (trace s @ [InputChange, SetAudioDownloadUrl (Some u)]) @ ys"
    using effect_trace [of "audioDownloadUrl s" "handler e s"] UrlUpdate
    by (auto simp: step_def onUrlUpdate_def setter_defs)
  then show ?thesis by (simp add: emitted_def)
next
  case (RecordingSubmit b)
  obtain ys where "trace (step e s)
      = (trace s @ [InputChange, SetAudioData None, SetAudioDownloadUrl None,
                    SetProgress (Some (Num 0)), CreateObjectURL (blobs s)]) @ ys"
    using effect_trace [of "audioDownloadUrl s" "handler e s"] RecordingSubmit
    by (auto simp: step_def RecordTile_setAudioData_def setAudioFromRecording_def
        resetAudio_def setter_defs)
  then show ?thesis by (simp add: emitted_def)
next
  case (FileInput m)
  then have "step e s = handler e s"
    using handler_url_unchanged [of e s] by (simp add: step_def urlEffect_def)
  with FileInput show ?thesis
    by (simp add: emitted_def FileTile_oninput_def setter_defs)
next
  case (FileLoad k res)
  then have "step e s = handler e s"
    using handler_url_unchanged [of e s] by (simp add: step_def urlEffect_def)
  with FileLoad show ?thesis
    by (simp add: emitted_def FileTile_load_def onFileUpdate_def setter_defs
        split: option.splits reader.splits)
next
  case (TestClick fetchText fetchAudio)
  then have "step e s = handler e s"
    using handler_url_unchanged [of e s] by (simp add: step_def urlEffect_def)
  with TestClick show ?thesis
    by (simp add: emitted_def TestTile_click_def onFilesLoaded_def setter_defs
        split: option.splits)
qed (use assms in simp_all)

text \<open>
  C8. In every invocation of a source adapter (URL, file, recording, test corpus), no
  mutation of the audio session state comes before the input-changed signal to the
  transcriber: when the invocation mutates the state at all, the signal is the first
  call it makes.
\<close>

theorem signal_before_mutation:
  assumes "adapter_call e"
  shows "signalled_first (emitted e s)
         \<and> ((\<exists>a \<in> set (emitted e s). is_mutation a) \<longrightarrow> hd (emitted e s) = InputChange)"
  using emitted_cases [OF assms, of s] by auto

theorem signal_before_mutation_witness:
  "adapter_call (UrlUpdate ''u'' :: nat event)
   \<and> emitted (UrlUpdate ''u'') (init :: (nat, nat) Manager)
       = [InputChange, SetAudioDownloadUrl (Some ''u''), SetAudioData None,
          SetProgress (Some (Num 0))]
   \<and> is_mutation (SetAudioDownloadUrl (Some ''u''))
   \<and> signalled_first (emitted (UrlUpdate ''u'') (init :: (nat, nat) Manager))
   \<and> hd (emitted (UrlUpdate ''u'') (init :: (nat, nat) Manager)) = InputChange"
proof -
  have h: "adapter_call (UrlUpdate ''u'' :: nat event)"
    by simp
  have e: "emitted (UrlUpdate ''u'') (init :: (nat, nat) Manager)
       = [InputChange, SetAudioDownloadUrl (Some ''u''), SetAudioData None,
          SetProgress (Some (Num 0))]"
    by code_simp
  from signal_before_mutation [OF h, of "init :: (nat, nat) Manager"] h e show ?thesis
    by simp
qed

section \<open>Playback references\<close>

text \<open>
  C9, as stated, fails: when an audio is replaced by another, the blob URL of the first
  has not been released once, it has not been released at all.
\<close>

theorem blob_url_leak_counterexample:
  "map_option url (audioData (run [FileInput ''audio/wav'', FileLoad 0 (Some 1)]
      (init :: (nat, nat) Manager))) = Some (BlobUrl 0)
   \<and> map_option url (audioData (run [FileInput ''audio/wav'', FileLoad 0 (Some 1),
        FileInput ''audio/wav'', FileLoad 1 (Some 2)] (init :: (nat, nat) Manager)))
       = Some (BlobUrl 1)
   \<and> count_list (revoked (run [FileInput ''audio/wav'', FileLoad 0 (Some 1),
        FileInput ''audio/wav'', FileLoad 1 (Some 2)] (init :: (nat, nat) Manager))) 0 \<noteq> 1"
  by (intro conjI; code_simp)

text \<open>
  C9, amended. The component never releases a playback reference: in every state it can
  reach no blob URL has been revoked, so when an audio is replaced or the state is reset
  the blob URL of the previous audio has been released zero times (it is never released
  twice, and it stays allocated).
\<close>

theorem blob_urls_never_revoked:
  "revoked (run evs (init :: ('b, 'n) Manager)) = []
   \<and> (\<forall>e a h. audioData (run evs (init :: ('b, 'n) Manager)) = Some a \<and> url a = BlobUrl h
                \<and> audioData (step e (run evs (init :: ('b, 'n) Manager))) \<noteq> Some a
        \<longrightarrow> count_list (revoked (step e (run evs (init :: ('b, 'n) Manager)))) h = 0)"
proof -
  have "revoked (run evs (init :: ('b, 'n) Manager)) = []"
    by (simp add: revoked_run init_def)
  moreover have "revoked (step e (run evs (init :: ('b, 'n) Manager))) = []" for e
    by (simp add: step_def revoked_handler revoked_effect revoked_run init_def)
  ultimately show ?thesis by simp
qed

theorem blob_urls_never_revoked_witness:
  "map_option url (audioData (run [FileInput ''audio/wav'', FileLoad 0 (Some 1)]
      (init :: (nat, nat) Manager))) = Some (BlobUrl 0)
   \<and> audioData (step (RecordingSubmit ''audio/webm'')
        (run [FileInput ''audio/wav'', FileLoad 0 (Some 1)] (init :: (nat, nat) Manager))) = None
   \<and> count_list (revoked (step (RecordingSubmit ''audio/webm'')
        (run [FileInput ''audio/wav'', FileLoad 0 (Some 1)] (init :: (nat, nat) Manager)))) 0 = 0"
proof -
  let ?S = "run [FileInput ''audio/wav'', FileLoad 0 (Some 1)] (init :: (nat, nat) Manager)"
  let ?A = "\<lparr>buffer = 1 :: nat, url = BlobUrl 0, source = FILE, mimeType = ''audio/wav''\<rparr>"
  have a: "audioData ?S = Some ?A"
    by code_simp
  have b: "audioData (step (RecordingSubmit ''audio/webm'') ?S) = None"
    by code_simp
  have "audioData ?S = Some ?A \<and> url ?A = BlobUrl 0
          \<and> audioData (step (RecordingSubmit ''audio/webm'') ?S) \<noteq> Some ?A
        \<longrightarrow> count_list (revoked (step (RecordingSubmit ''audio/webm'') ?S)) 0 = 0"
    using blob_urls_never_revoked
            [where evs = "[FileInput ''audio/wav'', FileLoad 0 (Some (1::nat))]"
               and 'b = nat and 'n = nat]
    by blast
  with a b have "count_list (revoked (step (RecordingSubmit ''audio/webm'') ?S)) 0 = 0"
    by simp
  with a b show ?thesis
    by simp
qed

end
